theory Spec2Isabelle
  imports Main "HOL-Library.Sublist"
begin

section \<open>Python values, exceptions and dictionaries\<close>

text \<open>
  The values that reach the producer classes are strings, integers, booleans, \<open>None\<close>,
  and lists and tuples of such values. Strings are ASCII text. What a call raises is a
  value of \<open>exc\<close>. \<open>SystemExit\<close> and \<open>KeyboardInterrupt\<close> derive from \<open>BaseException\<close>
  only; every other one is an instance of \<open>Exception\<close>, and \<open>except Exception\<close> catches
  exactly those.
\<close>

datatype py = PyNone | PyBool bool | PyInt int | PyStr string | PyList "py list" | PyTuple "py list"

datatype exc =
    RuntimeError
  | TypeError
  | AttributeError
  | KeyError string
  | KafkaException
  | OtherException string
  | SystemExit
  | KeyboardInterrupt

fun is_Exception :: "exc \<Rightarrow> bool" where
  "is_Exception SystemExit = False"
| "is_Exception KeyboardInterrupt = False"
| "is_Exception _ = True"

text \<open>
  A \<open>dict\<close> keeps its keys in insertion order: an association list with distinct keys.
  \<open>dict_setitem\<close> is \<open>d[k] = v\<close> (an existing key keeps its place), \<open>dict_update\<close>
  is \<open>d.update(e)\<close>, \<open>dict_get\<close> the lookup and \<open>dict_contains\<close> is \<open>k in d\<close>.
\<close>

type_synonym dict = "(string \<times> py) list"

fun dict_setitem :: "string \<Rightarrow> py \<Rightarrow> dict \<Rightarrow> dict" where
  "dict_setitem k v [] = [(k, v)]"
| "dict_setitem k v (p # ps) = (if fst p = k then (k, v) # ps else p # dict_setitem k v ps)"

definition dict_update :: "dict \<Rightarrow> dict \<Rightarrow> dict" where
  "dict_update d e = fold (\<lambda>(k, v). dict_setitem k v) e d"

definition dict_get :: "dict \<Rightarrow> string \<Rightarrow> py option" where
  "dict_get d k = map_of d k"

definition dict_contains :: "string \<Rightarrow> dict \<Rightarrow> bool" where
  "dict_contains k d = (k \<in> fst ` set d)"

subsection \<open>\<open>str.split\<close> and \<open>str.join\<close>\<close>

text \<open>\<open>s.split(",")\<close> with a one-character separator, and \<open>sep.join(xs)\<close>.\<close>

fun str_split :: "char \<Rightarrow> string \<Rightarrow> string list" where
  "str_split c [] = [[]]"
| "str_split c (x # xs) =
     (if x = c then [] # str_split c xs
      else (case str_split c xs of [] \<Rightarrow> [[x]] | w # ws \<Rightarrow> (x # w) # ws))"

fun str_join :: "string \<Rightarrow> string list \<Rightarrow> string" where
  "str_join sep [] = []"
| "str_join sep [x] = x"
| "str_join sep (x # y # ys) = x @ sep @ str_join sep (y # ys)"

subsection \<open>\<open>repr\<close> and \<open>str\<close>\<close>

definition digit_char :: "nat \<Rightarrow> char" where
  "digit_char n = char_of (48 + n)"

function show_nat :: "nat \<Rightarrow> string" where
  "show_nat n = (if n < 10 then [digit_char n] else show_nat (n div 10) @ [digit_char (n mod 10)])"
  by pat_completeness auto
termination
  by (relation "measure id") auto

definition show_int :: "int \<Rightarrow> string" where
  "show_int i = (if i < 0 then CHR ''-'' # show_nat (nat (- i)) else show_nat (nat i))"

definition hex_digit :: "nat \<Rightarrow> char" where
  "hex_digit n = (if n < 10 then char_of (48 + n) else char_of (87 + n))"

text \<open>
  \<open>repr\<close> of a string: double quotes when the text holds a single quote and no double
  quote, single quotes otherwise; the quote and the backslash are escaped, control
  characters are written \<open>\t\<close>, \<open>\n\<close>, \<open>\r\<close> or \<open>\xNN\<close>.
\<close>

definition repr_char :: "char \<Rightarrow> char \<Rightarrow> string" where
  "repr_char q c =
     (if c = q \<or> c = CHR 0x5C then [CHR 0x5C, c]
      else if c = CHR 0x09 then [CHR 0x5C, CHR ''t'']
      else if c = CHR 0x0A then [CHR 0x5C, CHR ''n'']
      else if c = CHR 0x0D then [CHR 0x5C, CHR ''r'']
      else if (of_char c :: nat) < 32 \<or> 127 \<le> (of_char c :: nat)
        then [CHR 0x5C, CHR ''x'', hex_digit (of_char c div 16), hex_digit (of_char c mod 16)]
      else [c])"

definition repr_str :: "string \<Rightarrow> string" where
  "repr_str s =
     (let q = (if CHR 0x27 \<in> set s \<and> CHR 0x22 \<notin> set s then CHR 0x22 else CHR 0x27)
      in q # concat (map (repr_char q) s) @ [q])"

fun py_repr :: "py \<Rightarrow> string" where
  "py_repr PyNone = ''None''"
| "py_repr (PyBool b) = (if b then ''True'' else ''False'')"
| "py_repr (PyInt i) = show_int i"
| "py_repr (PyStr s) = repr_str s"
| "py_repr (PyList xs) = ''['' @ str_join '', '' (map py_repr xs) @ '']''"
| "py_repr (PyTuple xs) =
     (case xs of
        [x] \<Rightarrow> ''('' @ py_repr x @ '',)''
      | _ \<Rightarrow> ''('' @ str_join '', '' (map py_repr xs) @ '')'')"

definition py_str :: "py \<Rightarrow> string" where
  "py_str v = (case v of PyStr s \<Rightarrow> s | _ \<Rightarrow> py_repr v)"

definition repr_item :: "string \<times> py \<Rightarrow> string" where
  "repr_item kv = repr_str (fst kv) @ '': '' @ py_repr (snd kv)"

definition repr_dict :: "dict \<Rightarrow> string" where
  "repr_dict d = ''{'' @ str_join '', '' (map repr_item d) @ ''}''"

section \<open>The producers\<close>

subsection \<open>\<open>kafka.Publisher.__init__\<close>\<close>



subsection \<open>\<open>produce.BasicProducer\<close>\<close>

text \<open>
  \<open>bp_bootstrap_servers\<close> is the object the caller passed: \<open>extend\<close> changes a list in
  place, so the field sees the servers of \<open>producer_config\<close> too, and a tuple has no
  \<open>extend\<close>. \<open>ConfluentProducer\<close> is the parameter described above, called last, and
  \<open>bp_producer\<close> records the configuration it accepted. The constructor's result is
  \<open>Inl\<close> when it raises, and then there is no producer object.
\<close>

record basic_producer =
  bp_topic :: string
  bp_bootstrap_servers :: py
  bp_key :: py
  bp_producer_config :: dict
  bp_producer :: dict

definition list_extend :: "py \<Rightarrow> string list \<Rightarrow> exc + py" where
  "list_extend v ys = (case v of PyList xs \<Rightarrow> Inr (PyList (xs @ map PyStr ys)) | _ \<Rightarrow> Inl AttributeError)"

fun the_strs :: "py list \<Rightarrow> string list option" where
  "the_strs [] = Some []"
| "the_strs (PyStr s # vs) = map_option ((#) s) (the_strs vs)"
| "the_strs (_ # vs) = None"

definition comma_join :: "py \<Rightarrow> exc + string" where
  "comma_join v =
     (case v of
        PyList xs \<Rightarrow> (case the_strs xs of None \<Rightarrow> Inl TypeError | Some ss \<Rightarrow> Inr (str_join '','' ss))
      | PyTuple xs \<Rightarrow> (case the_strs xs of None \<Rightarrow> Inl TypeError | Some ss \<Rightarrow> Inr (str_join '','' ss))
      | PyStr s \<Rightarrow> Inr (str_join '','' (map (\<lambda>c. [c]) s))
      | _ \<Rightarrow> Inl TypeError)"

definition BasicProducer_init ::
  "(dict \<Rightarrow> exc option) \<Rightarrow> string \<Rightarrow> py \<Rightarrow> py \<Rightarrow> dict option \<Rightarrow> exc + basic_producer" where
  "BasicProducer_init ConfluentProducer topic bootstrap_servers key producer_config =
     (let cfg = (case producer_config of None \<Rightarrow> [] | Some pc \<Rightarrow> dict_update [] pc) in
      case bootstrap_servers of
        PyStr s \<Rightarrow> Inl TypeError
      | _ \<Rightarrow>
        (case (if dict_contains ''bootstrap.servers'' cfg
               then (case dict_get cfg ''bootstrap.servers'' of
                       Some (PyStr s) \<Rightarrow> list_extend bootstrap_servers (str_split CHR '','' s)
                     | _ \<Rightarrow> Inl AttributeError)
               else Inr bootstrap_servers) of
           Inl e \<Rightarrow> Inl e
         | Inr servers \<Rightarrow>
           (case comma_join servers of
              Inl e \<Rightarrow> Inl e
            | Inr joined \<Rightarrow>
                (let cfg' = dict_setitem ''bootstrap.servers'' (PyStr joined) cfg
                 in case ConfluentProducer cfg' of
                      Some e \<Rightarrow> Inl e
                    | None \<Rightarrow>
                        Inr \<lparr> bp_topic = topic, bp_bootstrap_servers = servers, bp_key = key,
                              bp_producer_config = cfg', bp_producer = cfg' \<rparr>))))"

definition BasicProducer_str :: "basic_producer \<Rightarrow> string" where
  "BasicProducer_str self =
     (let safe_config =
            (if dict_contains ''sasl.password'' (bp_producer_config self)
             then dict_setitem ''sasl.password'' (PyStr ''****'') (bp_producer_config self)
             else bp_producer_config self)
      in ''<class 'bluesky_kafka.produce.BasicProducer'>'' @ ''(''
         @ ''topic='' @ [CHR 0x27] @ bp_topic self @ [CHR 0x27] @ '',''
         @ ''key='' @ [CHR 0x27] @ py_str (bp_key self) @ [CHR 0x27] @ '',''
         @ ''bootstrap_servers='' @ [CHR 0x27] @ py_str (bp_bootstrap_servers self) @ [CHR 0x27]
         @ ''producer_config='' @ [CHR 0x27] @ repr_dict safe_config @ [CHR 0x27]
         @ '')'')"


subsection \<open>Producers to run\<close>

text \<open>
  A confluent producer that refuses a configuration with a property it does not know,
  the configurations of the repository's two publisher tests, a third one with other
  \<open>sasl\<close> fields, and the producer that the constructor makes from a configuration
  without \<open>bootstrap.servers\<close>.
\<close>

definition example_confluent :: "dict \<Rightarrow> exc option" where
  "example_confluent cfg =
     (if list_all (\<lambda>kv. fst kv \<in> set [''bootstrap.servers'', ''enable.idempotence'', ''acks'',
                                          ''request.timeout.ms'', ''security.protocol'',
                                          ''sasl.mechanisms'', ''sasl.username'', ''sasl.password'',
                                          ''sasl.oauthbearer.client.secret'']) cfg
      then None else Some KafkaException)"


definition example_sasl_config :: dict where
  "example_sasl_config = [(''sasl.password'', PyStr ''PASSWORD'')]"

definition example_secret_config :: dict where
  "example_secret_config =
     [(''sasl.username'', PyStr ''alice''), (''sasl.oauthbearer.client.secret'', PyStr ''S3CR3T'')]"

definition example_producer :: "dict \<Rightarrow> basic_producer" where
  "example_producer cfg =
     \<lparr> bp_topic = ''test.redact.password'',
       bp_bootstrap_servers = PyList [PyStr ''1.2.3.4:9092''],
       bp_key = PyStr ''test.redact.password'',
       bp_producer_config = cfg @ [(''bootstrap.servers'', PyStr ''1.2.3.4:9092'')],
       bp_producer = cfg @ [(''bootstrap.servers'', PyStr ''1.2.3.4:9092'')] \<rparr>"

section \<open>The consumer: \<open>kafka.RemoteDispatcher\<close>\<close>

subsection \<open>The broker client\<close>

text \<open>
  A polled message has a topic, a value and an error field (\<open>None\<close> when the message is
  a valid one). The confluent \<open>Consumer\<close> is outside the repository: it is the queue of
  results its next \<open>poll\<close> calls return (\<open>None\<close> is a poll that timed out, and so is every
  poll once the queue is empty), with counters of the \<open>poll\<close> and \<open>close\<close> calls made
  on it.
\<close>

type_synonym bytes = string
type_synonym kafka_error = string

record message =
  msg_topic :: string
  msg_value :: bytes
  msg_error :: "kafka_error option"

record consumer =
  con_config :: dict
  subscription :: "string list"
  pending :: "message option list"
  poll_calls :: nat
  close_calls :: nat

definition consumer_poll :: "consumer \<Rightarrow> message option \<times> consumer" where
  "consumer_poll c =
     (case pending c of
        [] \<Rightarrow> (None, c\<lparr>poll_calls := Suc (poll_calls c)\<rparr>)
      | r # rs \<Rightarrow> (r, c\<lparr>pending := rs, poll_calls := Suc (poll_calls c)\<rparr>))"

definition consumer_close :: "consumer \<Rightarrow> consumer" where
  "consumer_close c = c\<lparr>close_calls := Suc (close_calls c)\<rparr>"

subsection \<open>What \<open>bluesky.run_engine\<close> provides\<close>

text \<open>
  \<open>DocumentNames[name]\<close> is the lookup in an enumeration of the library (\<open>None\<close> where
  Python raises \<open>KeyError\<close>), and \<open>process\<close> is the method inherited from \<open>Dispatcher\<close>,
  which hands the document to the subscribed callbacks: from their state, the name and the
  document it gives the fault it raises, if any, and their new state. Both are parameters.
\<close>

record ('n, 'd, 'h) bluesky =
  DocumentNames :: "string \<Rightarrow> 'n option"
  process :: "'h \<Rightarrow> 'n \<Rightarrow> 'd \<Rightarrow> exc option \<times> 'h"

subsection \<open>The dispatcher\<close>

text \<open>
  \<open>deserializer\<close> gives the pair \<open>name, doc\<close> the loop unpacks, or the fault raised by
  the deserializer or by the unpacking. \<open>decode_calls\<close>, \<open>process_calls\<close> and \<open>log\<close> are
  ghost fields: the values passed to the deserializer, the arguments of each call of
  \<open>process\<close>, and the log records, in order.
\<close>

datatype 'd log_entry =
    LogInfoConfig dict
  | LogInfoTopics "string list"
  | LogError kafka_error
  | LogDebug string string 'd

record ('n, 'd, 'h) remote_dispatcher =
  deserializer :: "bytes \<Rightarrow> exc + (string \<times> 'd)"
  consumer :: consumer
  closed :: bool
  handler :: 'h
  decode_calls :: "bytes list"
  process_calls :: "('n \<times> 'd) list"
  log :: "'d log_entry list"

definition RemoteDispatcher_init ::
  "message option list \<Rightarrow> 'h \<Rightarrow> string list \<Rightarrow> py \<Rightarrow> py option \<Rightarrow> py \<Rightarrow> dict option
     \<Rightarrow> (bytes \<Rightarrow> exc + (string \<times> 'd)) \<Rightarrow> ('n, 'd, 'h) remote_dispatcher" where
  "RemoteDispatcher_init broker callbacks topics bootstrap_servers group_id auto_offset_reset
       consumer_config deserializer' =
     (let cfg0 = (case consumer_config of None \<Rightarrow> [] | Some cc \<Rightarrow> cc);
          cfg1 = dict_update cfg0
                   [(''bootstrap.servers'', bootstrap_servers), (''auto.offset.reset'', auto_offset_reset)];
          cfg = (case group_id of None \<Rightarrow> cfg1 | Some g \<Rightarrow> dict_setitem ''group.id'' g cfg1)
      in \<lparr> deserializer = deserializer',
           consumer = \<lparr> con_config = cfg, subscription = topics, pending = broker,
                        poll_calls = 0, close_calls = 0 \<rparr>,
           closed = False,
           handler = callbacks,
           decode_calls = [],
           process_calls = [],
           log = [LogInfoConfig cfg, LogInfoTopics topics] \<rparr>)"

text \<open>
  One pass through the body of \<open>while True\<close> in \<open>_poll\<close>: the fault it raises, if any, and
  the state it leaves.
\<close>

definition poll_iteration ::
  "('n, 'd, 'h) bluesky \<Rightarrow> ('n, 'd, 'h) remote_dispatcher \<Rightarrow> exc option \<times> ('n, 'd, 'h) remote_dispatcher" where
  "poll_iteration lib self =
     (let (msg, c) = consumer_poll (consumer self);
          self1 = self\<lparr>consumer := c\<rparr>
      in case msg of
           None \<Rightarrow> (None, self1)
         | Some m \<Rightarrow>
           (case msg_error m of
              Some err \<Rightarrow> (None, self1\<lparr>log := log self1 @ [LogError err]\<rparr>)
            | None \<Rightarrow>
              (let self2 = self1\<lparr>decode_calls := decode_calls self1 @ [msg_value m]\<rparr>
               in case deserializer self2 (msg_value m) of
                    Inl e \<Rightarrow> (Some e, self2)
                  | Inr (name, doc) \<Rightarrow>
                    (let self3 = self2\<lparr>log := log self2 @ [LogDebug (msg_topic m) name doc]\<rparr>
                     in case DocumentNames lib name of
                          None \<Rightarrow> (Some (KeyError name), self3)
                        | Some n \<Rightarrow>
                          (let self4 = self3\<lparr>process_calls := process_calls self3 @ [(n, doc)]\<rparr>;
                               (fault, h) = process lib (handler self4) n doc
                           in (fault, self4\<lparr>handler := h\<rparr>))))))"

text \<open>
  A call either returns, raises, or is still inside its loop when the fuel (the number
  of passes observed) is used up.
\<close>

datatype outcome = Returns | Raises exc | StillPolling

fun RemoteDispatcher_poll ::
  "('n, 'd, 'h) bluesky \<Rightarrow> nat \<Rightarrow> ('n, 'd, 'h) remote_dispatcher \<Rightarrow> outcome \<times> ('n, 'd, 'h) remote_dispatcher" where
  "RemoteDispatcher_poll lib 0 self = (StillPolling, self)"
| "RemoteDispatcher_poll lib (Suc fuel) self =
     (case poll_iteration lib self of
        (Some e, self') \<Rightarrow> (Raises e, self')
      | (None, self') \<Rightarrow> RemoteDispatcher_poll lib fuel self')"

definition RemoteDispatcher_stop :: "('n, 'd, 'h) remote_dispatcher \<Rightarrow> ('n, 'd, 'h) remote_dispatcher" where
  "RemoteDispatcher_stop self = self\<lparr>consumer := consumer_close (consumer self), closed := True\<rparr>"

definition RemoteDispatcher_start ::
  "('n, 'd, 'h) bluesky \<Rightarrow> nat \<Rightarrow> ('n, 'd, 'h) remote_dispatcher \<Rightarrow> outcome \<times> ('n, 'd, 'h) remote_dispatcher" where
  "RemoteDispatcher_start lib fuel self =
     (if closed self then (Raises RuntimeError, self)
      else case RemoteDispatcher_poll lib fuel self of
             (Raises e, self') \<Rightarrow>
               (if is_Exception e then (Raises e, RemoteDispatcher_stop self') else (Raises e, self'))
           | (out, self') \<Rightarrow> (out, self'))"

text \<open>The public operations on a dispatcher, and the states a sequence of them visits.\<close>

datatype operation = Start nat | Stop

fun apply_operation ::
  "('n, 'd, 'h) bluesky \<Rightarrow> operation \<Rightarrow> ('n, 'd, 'h) remote_dispatcher \<Rightarrow> ('n, 'd, 'h) remote_dispatcher" where
  "apply_operation lib (Start fuel) self = snd (RemoteDispatcher_start lib fuel self)"
| "apply_operation lib Stop self = RemoteDispatcher_stop self"

fun visited ::
  "('n, 'd, 'h) bluesky \<Rightarrow> operation list \<Rightarrow> ('n, 'd, 'h) remote_dispatcher \<Rightarrow> ('n, 'd, 'h) remote_dispatcher list" where
  "visited lib [] self = [self]"
| "visited lib (op # ops) self = self # visited lib ops (apply_operation lib op self)"

text \<open>
  The documents of a list of poll results: what the valid messages decode to, or \<open>None\<close>
  when a valid message fails to decode or names no member of \<open>DocumentNames\<close>. And the
  state of the callbacks after a list of documents, or \<open>None\<close> when one of them faults.
\<close>

definition valid_message :: "message option \<Rightarrow> bool" where
  "valid_message r = (case r of None \<Rightarrow> False | Some m \<Rightarrow> msg_error m = None)"

fun documents ::
  "(bytes \<Rightarrow> exc + (string \<times> 'd)) \<Rightarrow> (string \<Rightarrow> 'n option) \<Rightarrow> message option list \<Rightarrow> ('n \<times> 'd) list option" where
  "documents dec names [] = Some []"
| "documents dec names (r # rs) =
     (if valid_message r then
        (case dec (msg_value (the r)) of
           Inl e \<Rightarrow> None
         | Inr (name, doc) \<Rightarrow>
           (case names name of
              None \<Rightarrow> None
            | Some n \<Rightarrow> map_option ((#) (n, doc)) (documents dec names rs)))
      else documents dec names rs)"

fun handle_all :: "('h \<Rightarrow> 'n \<Rightarrow> 'd \<Rightarrow> exc option \<times> 'h) \<Rightarrow> 'h \<Rightarrow> ('n \<times> 'd) list \<Rightarrow> 'h option" where
  "handle_all p h [] = Some h"
| "handle_all p h ((n, d) # ds) =
     (case p h n d of (None, h') \<Rightarrow> handle_all p h' ds | (Some e, h') \<Rightarrow> None)"

text \<open>
  The fault that decoding and dispatching one valid message raises, when the callbacks
  are in state \<open>h\<close>: the deserializer's, \<open>KeyError\<close> for a name outside the enumeration,
  or the one \<open>process\<close> raises; \<open>None\<close> when the message is handled.
\<close>

definition fault_of ::
  "('n, 'd, 'h) bluesky \<Rightarrow> (bytes \<Rightarrow> exc + (string \<times> 'd)) \<Rightarrow> 'h \<Rightarrow> message \<Rightarrow> exc option" where
  "fault_of lib dec h m =
     (case dec (msg_value m) of
        Inl e \<Rightarrow> Some e
      | Inr (name, doc) \<Rightarrow>
        (case DocumentNames lib name of
           None \<Rightarrow> Some (KeyError name)
         | Some n \<Rightarrow> fst (process lib h n doc)))"

subsection \<open>A dispatcher to run\<close>

text \<open>
  A concrete instance: the enumeration holds four names, the subscribed callback stores
  every document it is given, and the payload \<open>name:doc\<close> decodes to the pair of its two
  parts while any other payload is malformed.
\<close>

definition example_lib :: "(string, string, (string \<times> string) list) bluesky" where
  "example_lib =
     \<lparr> DocumentNames = (\<lambda>s. if s \<in> set [''start'', ''descriptor'', ''event'', ''stop''] then Some s else None),
       process = (\<lambda>h n d. (None, h @ [(n, d)])) \<rparr>"

text \<open>A second library, whose callback leaves the interpreter on a stop document.\<close>

definition exiting_lib :: "(string, string, (string \<times> string) list) bluesky" where
  "exiting_lib =
     \<lparr> DocumentNames = (\<lambda>s. if s \<in> set [''start'', ''descriptor'', ''event'', ''stop''] then Some s else None),
       process = (\<lambda>h n d. if n = ''stop'' then (Some SystemExit, h) else (None, h @ [(n, d)])) \<rparr>"

definition example_deserializer :: "bytes \<Rightarrow> exc + (string \<times> string)" where
  "example_deserializer v =
     (case str_split CHR '':'' v of
        [n, d] \<Rightarrow> Inr (n, d)
      | _ \<Rightarrow> Inl (OtherException ''UnpicklingError''))"

definition example_dispatcher ::
  "message option list \<Rightarrow> (string, string, (string \<times> string) list) remote_dispatcher" where
  "example_dispatcher broker =
     RemoteDispatcher_init broker [] [''topic''] (PyStr ''localhost:9092'') None (PyStr ''latest'')
       None example_deserializer"

definition example_message :: "string \<Rightarrow> bytes \<Rightarrow> message" where
  "example_message t v = \<lparr> msg_topic = t, msg_value = v, msg_error = None \<rparr>"

definition example_error :: message where
  "example_error = \<lparr> msg_topic = ''topic'', msg_value = ''start:run'', msg_error = Some ''broker down'' \<rparr>"

definition example_broker :: "message option list" where
  "example_broker =
     [None, Some (example_message ''topic'' ''garbage''), Some (example_message ''topic'' ''start:run'')]"

definition example_stream :: "message option list" where
  "example_stream =
     [None, Some (example_message ''topic'' ''start:run''), Some example_error,
      Some (example_message ''topic'' ''stop:run'')]"

section \<open>One pass of the loop\<close>

lemma poll_iteration_timeout:
  "pending (consumer self) = [] \<Longrightarrow>
   poll_iteration lib self = (None, self\<lparr>consumer := (consumer self)\<lparr>poll_calls := Suc (poll_calls (consumer self))\<rparr>\<rparr>)"
  by (simp add: poll_iteration_def consumer_poll_def)

lemma poll_iteration_no_message:
  "pending (consumer self) = None # rs \<Longrightarrow>
   poll_iteration lib self =
     (None, self\<lparr>consumer := (consumer self)\<lparr>pending := rs, poll_calls := Suc (poll_calls (consumer self))\<rparr>\<rparr>)"
  by (simp add: poll_iteration_def consumer_poll_def)

lemma poll_iteration_error:
  "pending (consumer self) = Some m # rs \<Longrightarrow> msg_error m = Some err \<Longrightarrow>
   poll_iteration lib self =
     (None, self\<lparr>consumer := (consumer self)\<lparr>pending := rs, poll_calls := Suc (poll_calls (consumer self))\<rparr>,
                 log := log self @ [LogError err]\<rparr>)"
  by (simp add: poll_iteration_def consumer_poll_def)

lemma poll_iteration_decode_fault:
  "pending (consumer self) = Some m # rs \<Longrightarrow> msg_error m = None \<Longrightarrow>
   deserializer self (msg_value m) = Inl e \<Longrightarrow>
   poll_iteration lib self =
     (Some e, self\<lparr>consumer := (consumer self)\<lparr>pending := rs, poll_calls := Suc (poll_calls (consumer self))\<rparr>,
                   decode_calls := decode_calls self @ [msg_value m]\<rparr>)"
  by (simp add: poll_iteration_def consumer_poll_def)

lemma poll_iteration_unknown_name:
  "pending (consumer self) = Some m # rs \<Longrightarrow> msg_error m = None \<Longrightarrow>
   deserializer self (msg_value m) = Inr (name, doc) \<Longrightarrow> DocumentNames lib name = None \<Longrightarrow>
   poll_iteration lib self =
     (Some (KeyError name),
      self\<lparr>consumer := (consumer self)\<lparr>pending := rs, poll_calls := Suc (poll_calls (consumer self))\<rparr>,
           decode_calls := decode_calls self @ [msg_value m],
           log := log self @ [LogDebug (msg_topic m) name doc]\<rparr>)"
  by (simp add: poll_iteration_def consumer_poll_def)

lemma poll_iteration_dispatch:
  "pending (consumer self) = Some m # rs \<Longrightarrow> msg_error m = None \<Longrightarrow>
   deserializer self (msg_value m) = Inr (name, doc) \<Longrightarrow> DocumentNames lib name = Some n \<Longrightarrow>
   poll_iteration lib self =
     (fst (process lib (handler self) n doc),
      self\<lparr>consumer := (consumer self)\<lparr>pending := rs, poll_calls := Suc (poll_calls (consumer self))\<rparr>,
           decode_calls := decode_calls self @ [msg_value m],
           log := log self @ [LogDebug (msg_topic m) name doc],
           process_calls := process_calls self @ [(n, doc)],
           handler := snd (process lib (handler self) n doc)\<rparr>)"
  by (simp add: poll_iteration_def consumer_poll_def split: prod.splits)

lemma poll_iteration_frame:
  "poll_iteration lib self = (r, self') \<Longrightarrow>
   closed self' = closed self \<and> deserializer self' = deserializer self
   \<and> close_calls (consumer self') = close_calls (consumer self)
   \<and> poll_calls (consumer self') = Suc (poll_calls (consumer self))
   \<and> pending (consumer self') = tl (pending (consumer self))"
  by (auto simp: poll_iteration_def consumer_poll_def Let_def
           split: list.splits option.splits sum.splits prod.splits)

lemma poll_frame:
  "RemoteDispatcher_poll lib fuel self = (out, self') \<Longrightarrow>
   closed self' = closed self \<and> deserializer self' = deserializer self
   \<and> close_calls (consumer self') = close_calls (consumer self)
   \<and> poll_calls (consumer self) \<le> poll_calls (consumer self')
   \<and> poll_calls (consumer self') \<le> poll_calls (consumer self) + fuel"
proof (induction fuel arbitrary: self)
  case 0
  then show ?case by simp
next
  case (Suc fuel)
  obtain r s1 where it: "poll_iteration lib self = (r, s1)" by (cases "poll_iteration lib self")
  note fr = poll_iteration_frame [OF it]
  show ?case
  proof (cases r)
    case None
    with it Suc.prems have "RemoteDispatcher_poll lib fuel s1 = (out, self')" by simp
    from Suc.IH [OF this] fr show ?thesis by simp
  next
    case (Some e)
    with it Suc.prems have "self' = s1" by simp
    with fr show ?thesis by simp
  qed
qed

lemma poll_never_returns: "fst (RemoteDispatcher_poll lib fuel self) \<noteq> Returns"
proof (induction fuel arbitrary: self)
  case 0
  then show ?case by simp
next
  case (Suc fuel)
  then show ?case by (cases "poll_iteration lib self") (auto split: option.splits)
qed

lemma start_never_returns: "fst (RemoteDispatcher_start lib fuel self) \<noteq> Returns"
proof (cases "closed self")
  case True
  then show ?thesis by (simp add: RemoteDispatcher_start_def)
next
  case False
  obtain out s where run: "RemoteDispatcher_poll lib fuel self = (out, s)"
    by (cases "RemoteDispatcher_poll lib fuel self")
  with poll_never_returns [of lib fuel self] have "out \<noteq> Returns" by simp
  with run False show ?thesis
    by (cases out) (simp_all add: RemoteDispatcher_start_def)
qed

lemma poll_raise_stable:
  "RemoteDispatcher_poll lib fuel self = (Raises e, self') \<Longrightarrow>
   RemoteDispatcher_poll lib (fuel + k) self = (Raises e, self')"
proof (induction fuel arbitrary: self)
  case 0
  then show ?case by simp
next
  case (Suc fuel)
  then show ?case by (cases "poll_iteration lib self") (auto split: option.splits)
qed

lemma poll_still_polling_count:
  "RemoteDispatcher_poll lib fuel self = (StillPolling, self') \<Longrightarrow>
   poll_calls (consumer self') = poll_calls (consumer self) + fuel"
proof (induction fuel arbitrary: self)
  case 0
  then show ?case by simp
next
  case (Suc fuel)
  obtain r s1 where it: "poll_iteration lib self = (r, s1)" by (cases "poll_iteration lib self")
  with Suc.prems have r: "r = None" by (cases r) auto
  with it Suc.prems have "RemoteDispatcher_poll lib fuel s1 = (StillPolling, self')" by simp
  from Suc.IH [OF this] poll_iteration_frame [OF it] show ?case by simp
qed

lemma poll_idle:
  "pending (consumer self) = [] \<Longrightarrow>
   \<exists>self'. RemoteDispatcher_poll lib fuel self = (StillPolling, self')
     \<and> process_calls self' = process_calls self \<and> handler self' = handler self
     \<and> decode_calls self' = decode_calls self"
proof (induction fuel arbitrary: self)
  case 0
  then show ?case by simp
next
  case (Suc fuel)
  let ?s1 = "self\<lparr>consumer := (consumer self)\<lparr>poll_calls := Suc (poll_calls (consumer self))\<rparr>\<rparr>"
  have it: "poll_iteration lib self = (None, ?s1)"
    using Suc.prems by (rule poll_iteration_timeout)
  have "pending (consumer ?s1) = []" using Suc.prems by simp
  from Suc.IH [OF this] it show ?case by simp
qed

lemma documents_length:
  "documents dec names rs = Some docs \<Longrightarrow> length docs = length (filter valid_message rs)"
proof (induction rs arbitrary: docs)
  case Nil
  then show ?case by simp
next
  case (Cons r rs)
  then show ?case
    by (auto split: if_splits sum.splits option.splits prod.splits)
qed

lemma poll_dispatches:
  "pending (consumer self) = rs \<Longrightarrow>
   documents (deserializer self) (DocumentNames lib) rs = Some docs \<Longrightarrow>
   handle_all (process lib) (handler self) docs = Some h \<Longrightarrow>
   length rs \<le> fuel \<Longrightarrow>
   \<exists>self'. RemoteDispatcher_poll lib fuel self = (StillPolling, self')
     \<and> process_calls self' = process_calls self @ docs \<and> handler self' = h
     \<and> decode_calls self' = decode_calls self @ map (\<lambda>r. msg_value (the r)) (filter valid_message rs)"
proof (induction rs arbitrary: self docs fuel)
  case Nil
  then have "docs = []" "h = handler self" by simp_all
  with poll_idle [OF Nil.prems(1), of lib fuel] show ?case by simp
next
  case (Cons r rs)
  from Cons.prems(4) obtain f where fuel: "fuel = Suc f" and f: "length rs \<le> f"
    by (cases fuel) auto
  show ?case
  proof (cases r)
    case None
    let ?s1 = "self\<lparr>consumer := (consumer self)\<lparr>pending := rs, poll_calls := Suc (poll_calls (consumer self))\<rparr>\<rparr>"
    have it: "poll_iteration lib self = (None, ?s1)"
      using Cons.prems(1) None by (simp add: poll_iteration_no_message)
    have d: "documents (deserializer ?s1) (DocumentNames lib) rs = Some docs"
      using Cons.prems(2) None by (simp add: valid_message_def)
    have "pending (consumer ?s1) = rs" by simp
    from Cons.IH [OF this d _ f, of ] Cons.prems(3) it fuel None show ?thesis
      by (simp add: valid_message_def)
  next
    case (Some m)
    show ?thesis
    proof (cases "msg_error m")
      case (Some err)
      let ?s1 = "self\<lparr>consumer := (consumer self)\<lparr>pending := rs, poll_calls := Suc (poll_calls (consumer self))\<rparr>,
                       log := log self @ [LogError err]\<rparr>"
      have it: "poll_iteration lib self = (None, ?s1)"
        using Cons.prems(1) \<open>r = Some m\<close> Some by (simp add: poll_iteration_error)
      have d: "documents (deserializer ?s1) (DocumentNames lib) rs = Some docs"
        using Cons.prems(2) \<open>r = Some m\<close> Some by (simp add: valid_message_def)
      have "pending (consumer ?s1) = rs" by simp
      from Cons.IH [OF this d _ f] Cons.prems(3) it fuel \<open>r = Some m\<close> Some show ?thesis
        by (simp add: valid_message_def)
    next
      case None
      then have v: "valid_message r" using \<open>r = Some m\<close> by (simp add: valid_message_def)
      from Cons.prems(2) v \<open>r = Some m\<close> obtain name doc n docs'
        where dec: "deserializer self (msg_value m) = Inr (name, doc)"
          and nm: "DocumentNames lib name = Some n"
          and rest: "documents (deserializer self) (DocumentNames lib) rs = Some docs'"
          and docs: "docs = (n, doc) # docs'"
        by (auto split: sum.splits option.splits prod.splits)
      from Cons.prems(3) docs obtain h1
        where p: "process lib (handler self) n doc = (None, h1)"
          and hs: "handle_all (process lib) h1 docs' = Some h"
        by (auto split: prod.splits option.splits)
      let ?s1 = "self\<lparr>consumer := (consumer self)\<lparr>pending := rs, poll_calls := Suc (poll_calls (consumer self))\<rparr>,
                       decode_calls := decode_calls self @ [msg_value m],
                       log := log self @ [LogDebug (msg_topic m) name doc],
                       process_calls := process_calls self @ [(n, doc)],
                       handler := h1\<rparr>"
      have it: "poll_iteration lib self = (None, ?s1)"
        using poll_iteration_dispatch [OF _ None dec nm, of rs] Cons.prems(1) \<open>r = Some m\<close> p by simp
      have d: "documents (deserializer ?s1) (DocumentNames lib) rs = Some docs'"
        using rest by simp
      have h: "handle_all (process lib) (handler ?s1) docs' = Some h"
        using hs by simp
      have "pending (consumer ?s1) = rs" by simp
      from Cons.IH [OF this d h f] it fuel \<open>r = Some m\<close> v docs show ?thesis
        by simp
    qed
  qed
qed

lemma poll_iteration_fault:
  assumes "pending (consumer self) = Some m # rs" and "msg_error m = None"
    and "fault_of lib (deserializer self) (handler self) m = Some e"
  shows "\<exists>self'. poll_iteration lib self = (Some e, self') \<and> pending (consumer self') = rs"
proof (cases "deserializer self (msg_value m)")
  case (Inl e')
  with assms(3) have "e' = e" by (simp add: fault_of_def)
  with poll_iteration_decode_fault [OF assms(1,2) Inl, of lib] show ?thesis by simp
next
  case (Inr nd)
  obtain name doc where nd: "nd = (name, doc)" by (cases nd)
  show ?thesis
  proof (cases "DocumentNames lib name")
    case None
    with assms(3) Inr nd have "e = KeyError name" by (simp add: fault_of_def)
    with poll_iteration_unknown_name [OF assms(1,2) Inr [unfolded nd] None] show ?thesis by simp
  next
    case (Some n)
    with assms(3) Inr nd have "fst (process lib (handler self) n doc) = Some e"
      by (simp add: fault_of_def)
    with poll_iteration_dispatch [OF assms(1,2) Inr [unfolded nd] Some] show ?thesis by simp
  qed
qed

lemma poll_fault:
  "pending (consumer self) = pre @ Some m # rest \<Longrightarrow>
   documents (deserializer self) (DocumentNames lib) pre = Some docs \<Longrightarrow>
   handle_all (process lib) (handler self) docs = Some h \<Longrightarrow>
   msg_error m = None \<Longrightarrow>
   fault_of lib (deserializer self) h m = Some e \<Longrightarrow>
   length pre < fuel \<Longrightarrow>
   \<exists>self'. RemoteDispatcher_poll lib fuel self = (Raises e, self')
     \<and> pending (consumer self') = rest
     \<and> poll_calls (consumer self') = poll_calls (consumer self) + length pre + 1"
proof (induction pre arbitrary: self docs fuel)
  case Nil
  from Nil.prems(6) obtain f where fuel: "fuel = Suc f" by (cases fuel) auto
  from Nil.prems(2,3) have "h = handler self" by simp
  with poll_iteration_fault [of self m rest lib e] Nil.prems
  obtain s1 where it: "poll_iteration lib self = (Some e, s1)" and p: "pending (consumer s1) = rest"
    by auto
  from it fuel poll_iteration_frame [OF it] p show ?case by simp
next
  case (Cons r pre)
  from Cons.prems(6) obtain f where fuel: "fuel = Suc f" and f: "length pre < f"
    by (cases fuel) auto
  have "\<exists>s1. poll_iteration lib self = (None, s1)
          \<and> pending (consumer s1) = pre @ Some m # rest
          \<and> (\<exists>docs'. documents (deserializer s1) (DocumentNames lib) pre = Some docs'
                \<and> handle_all (process lib) (handler s1) docs' = Some h)
          \<and> deserializer s1 = deserializer self"
  proof (cases r)
    case None
    from poll_iteration_no_message [of self "pre @ Some m # rest" lib] Cons.prems(1) None
    have "poll_iteration lib self
            = (None, self\<lparr>consumer := (consumer self)\<lparr>pending := pre @ Some m # rest,
                 poll_calls := Suc (poll_calls (consumer self))\<rparr>\<rparr>)"
      by simp
    with Cons.prems(2,3) None show ?thesis by (simp add: valid_message_def)
  next
    case (Some m')
    show ?thesis
    proof (cases "msg_error m'")
      case (Some err)
      from poll_iteration_error [of self m' "pre @ Some m # rest" err lib] Cons.prems(1) \<open>r = Some m'\<close> Some
      have "poll_iteration lib self
              = (None, self\<lparr>consumer := (consumer self)\<lparr>pending := pre @ Some m # rest,
                   poll_calls := Suc (poll_calls (consumer self))\<rparr>, log := log self @ [LogError err]\<rparr>)"
        by simp
      with Cons.prems(2,3) \<open>r = Some m'\<close> Some show ?thesis by (simp add: valid_message_def)
    next
      case None
      then have v: "valid_message r" using \<open>r = Some m'\<close> by (simp add: valid_message_def)
      from Cons.prems(2) v \<open>r = Some m'\<close> obtain name doc n docs'
        where dec: "deserializer self (msg_value m') = Inr (name, doc)"
          and nm: "DocumentNames lib name = Some n"
          and rest: "documents (deserializer self) (DocumentNames lib) pre = Some docs'"
          and docs: "docs = (n, doc) # docs'"
        by (auto split: sum.splits option.splits prod.splits)
      from Cons.prems(3) docs obtain h1
        where p: "process lib (handler self) n doc = (None, h1)"
          and hs: "handle_all (process lib) h1 docs' = Some h"
        by (auto split: prod.splits option.splits)
      from poll_iteration_dispatch [OF _ None dec nm, of "pre @ Some m # rest"] Cons.prems(1) \<open>r = Some m'\<close> p
      have "poll_iteration lib self
              = (None, self\<lparr>consumer := (consumer self)\<lparr>pending := pre @ Some m # rest,
                   poll_calls := Suc (poll_calls (consumer self))\<rparr>,
                   decode_calls := decode_calls self @ [msg_value m'],
                   log := log self @ [LogDebug (msg_topic m') name doc],
                   process_calls := process_calls self @ [(n, doc)],
                   handler := h1\<rparr>)"
        by simp
      with rest hs show ?thesis by simp
    qed
  qed
  then obtain s1 docs' where it: "poll_iteration lib self = (None, s1)"
    and p: "pending (consumer s1) = pre @ Some m # rest"
    and d: "documents (deserializer s1) (DocumentNames lib) pre = Some docs'"
    and hh: "handle_all (process lib) (handler s1) docs' = Some h"
    and ds: "deserializer s1 = deserializer self"
    by blast
  from Cons.prems(5) ds have fo: "fault_of lib (deserializer s1) h m = Some e" by simp
  from Cons.IH [OF p d hh Cons.prems(4) fo f] it fuel poll_iteration_frame [OF it]
  show ?case by simp
qed

lemma init_not_closed:
  "\<not> closed (RemoteDispatcher_init broker callbacks topics bootstrap_servers group_id auto_offset_reset
        consumer_config dec)"
  by (simp add: RemoteDispatcher_init_def Let_def)

lemma apply_operation_closed:
  "closed self \<Longrightarrow>
   closed (apply_operation lib op self)
   \<and> poll_calls (consumer (apply_operation lib op self)) = poll_calls (consumer self)"
  by (cases op) (simp_all add: RemoteDispatcher_start_def RemoteDispatcher_stop_def consumer_close_def)

lemma visited_closed:
  "closed self \<Longrightarrow> s \<in> set (visited lib ops self) \<Longrightarrow>
   closed s \<and> poll_calls (consumer s) = poll_calls (consumer self)"
proof (induction ops arbitrary: self)
  case Nil
  then show ?case by simp
next
  case (Cons op ops)
  show ?case
  proof (cases "s = self")
    case True
    with Cons.prems show ?thesis by simp
  next
    case False
    with Cons.prems have "s \<in> set (visited lib ops (apply_operation lib op self))" by simp
    from Cons.IH [OF _ this] apply_operation_closed [OF Cons.prems(1), of lib op]
    show ?thesis by simp
  qed
qed

lemma closing_calls_close:
  "\<not> closed self \<Longrightarrow> closed (apply_operation lib op self) \<Longrightarrow>
   close_calls (consumer (apply_operation lib op self)) = Suc (close_calls (consumer self))"
proof (cases op)
  case (Start fuel)
  assume nc: "\<not> closed self" and c: "closed (apply_operation lib op self)"
  obtain out s1 where run: "RemoteDispatcher_poll lib fuel self = (out, s1)"
    by (cases "RemoteDispatcher_poll lib fuel self")
  note fr = poll_frame [OF run]
  show ?thesis
  proof (cases out)
    case (Raises e)
    with run nc Start fr c show ?thesis
      by (cases "is_Exception e")
         (simp_all add: RemoteDispatcher_start_def RemoteDispatcher_stop_def consumer_close_def)
  next
    case Returns
    with run nc Start fr c show ?thesis by (simp add: RemoteDispatcher_start_def)
  next
    case StillPolling
    with run nc Start fr c show ?thesis by (simp add: RemoteDispatcher_start_def)
  qed
next
  case Stop
  then show ?thesis by (simp add: RemoteDispatcher_stop_def consumer_close_def)
qed

lemmas example_defs = example_lib_def example_deserializer_def example_dispatcher_def
  example_message_def example_error_def example_broker_def RemoteDispatcher_init_def
  dict_update_def Let_def

lemmas eval_defs = example_defs example_stream_def valid_message_def poll_iteration_def
  consumer_poll_def RemoteDispatcher_start_def RemoteDispatcher_stop_def consumer_close_def
  eval_nat_numeral

section \<open>Broker errors\<close>

text \<open>
  Claim C3. A poll result whose error field is set is logged and skipped: the pass raises
  nothing, the deserializer is not called on the value, \<open>process\<close> is not called and the
  callbacks are untouched, nothing is closed, and the loop goes on with its next pass.
\<close>

theorem broker_error_is_skipped:
  assumes "pending (consumer self) = Some m # rs" and "msg_error m = Some err"
  shows "\<exists>self'. poll_iteration lib self = (None, self')
           \<and> log self' = log self @ [LogError err]
           \<and> decode_calls self' = decode_calls self
           \<and> process_calls self' = process_calls self
           \<and> handler self' = handler self
           \<and> closed self' = closed self
           \<and> close_calls (consumer self') = close_calls (consumer self)
           \<and> (\<forall>fuel. RemoteDispatcher_poll lib (Suc fuel) self = RemoteDispatcher_poll lib fuel self')"
  using poll_iteration_error [OF assms, of lib] by simp

theorem broker_error_is_skipped_witness:
  "pending (consumer (example_dispatcher [Some example_error])) = Some example_error # []
   \<and> msg_error example_error = Some ''broker down''
   \<and> (\<exists>self'. poll_iteration example_lib (example_dispatcher [Some example_error]) = (None, self')
           \<and> log self' = log (example_dispatcher [Some example_error]) @ [LogError ''broker down'']
           \<and> decode_calls self' = []
           \<and> process_calls self' = []
           \<and> handler self' = []
           \<and> closed self' = False
           \<and> close_calls (consumer self') = 0
           \<and> (\<forall>fuel. RemoteDispatcher_poll example_lib (Suc fuel) (example_dispatcher [Some example_error])
                        = RemoteDispatcher_poll example_lib fuel self'))"
proof -
  have p: "pending (consumer (example_dispatcher [Some example_error])) = Some example_error # []"
    by (simp add: example_defs)
  have e: "msg_error example_error = Some ''broker down''"
    by (simp add: example_defs)
  from broker_error_is_skipped [OF p e, of example_lib] p e show ?thesis
    by (simp add: example_defs)
qed

section \<open>Starting a closed dispatcher\<close>

text \<open>
  Claim C4. \<open>start\<close> on a dispatcher whose \<open>closed\<close> flag is set raises \<open>RuntimeError\<close> at
  once: the state is the one it was called in, so no poll was issued.
\<close>

theorem start_when_closed:
  assumes "closed self"
  shows "RemoteDispatcher_start lib fuel self = (Raises RuntimeError, self)
         \<and> poll_calls (consumer (snd (RemoteDispatcher_start lib fuel self))) = poll_calls (consumer self)"
  using assms by (simp add: RemoteDispatcher_start_def)

theorem start_when_closed_witness:
  "closed (RemoteDispatcher_stop (example_dispatcher [Some (example_message ''topic'' ''start:run'')]))
   \<and> fst (RemoteDispatcher_start example_lib 3
        (RemoteDispatcher_stop (example_dispatcher [Some (example_message ''topic'' ''start:run'')])))
       = Raises RuntimeError
   \<and> poll_calls (consumer (snd (RemoteDispatcher_start example_lib 3
        (RemoteDispatcher_stop (example_dispatcher [Some (example_message ''topic'' ''start:run'')]))))) = 0"
proof -
  have c: "closed (RemoteDispatcher_stop (example_dispatcher [Some (example_message ''topic'' ''start:run'')]))"
    by (simp add: RemoteDispatcher_stop_def)
  from start_when_closed [OF c, of example_lib 3] c show ?thesis
    by (simp add: RemoteDispatcher_stop_def consumer_close_def example_defs)
qed

section \<open>Faults in the loop\<close>

text \<open>
  Claim C2, as the code has it. After poll results that raise nothing, a valid message
  whose decoding or dispatch raises a fault that is an instance of \<open>Exception\<close> ends the
  loop: \<open>start\<close> calls \<open>stop\<close> and raises the same fault, the adapter is closed once and
  \<open>closed\<close> is set. The faulting message is the last result polled and the results after
  it stay in the queue, however much longer the call is observed.
\<close>

theorem fault_stops_and_propagates:
  assumes "\<not> closed self"
    and "pending (consumer self) = pre @ Some m # rest"
    and "documents (deserializer self) (DocumentNames lib) pre = Some docs"
    and "handle_all (process lib) (handler self) docs = Some h"
    and "msg_error m = None"
    and "fault_of lib (deserializer self) h m = Some e"
    and "is_Exception e"
    and "length pre < fuel"
  shows "\<exists>self'. RemoteDispatcher_start lib fuel self = (Raises e, self')
           \<and> closed self'
           \<and> close_calls (consumer self') = Suc (close_calls (consumer self))
           \<and> poll_calls (consumer self') = poll_calls (consumer self) + length pre + 1
           \<and> pending (consumer self') = rest"
proof -
  from poll_fault [OF assms(2,3,4,5,6,8)]
  obtain s1 where run: "RemoteDispatcher_poll lib fuel self = (Raises e, s1)"
    and p: "pending (consumer s1) = rest"
    and n: "poll_calls (consumer s1) = poll_calls (consumer self) + length pre + 1"
    by blast
  from run assms(1,7)
  have "RemoteDispatcher_start lib fuel self = (Raises e, RemoteDispatcher_stop s1)"
    by (simp add: RemoteDispatcher_start_def)
  with p n poll_frame [OF run] show ?thesis
    by (simp add: RemoteDispatcher_stop_def consumer_close_def)
qed

theorem fault_stops_and_propagates_witness:
  "\<not> closed (example_dispatcher example_broker)
   \<and> pending (consumer (example_dispatcher example_broker))
       = [None] @ Some (example_message ''topic'' ''garbage'')
           # [Some (example_message ''topic'' ''start:run'')]
   \<and> documents (deserializer (example_dispatcher example_broker)) (DocumentNames example_lib) [None]
       = Some []
   \<and> handle_all (process example_lib) (handler (example_dispatcher example_broker)) [] = Some []
   \<and> msg_error (example_message ''topic'' ''garbage'') = None
   \<and> fault_of example_lib (deserializer (example_dispatcher example_broker)) []
        (example_message ''topic'' ''garbage'') = Some (OtherException ''UnpicklingError'')
   \<and> is_Exception (OtherException ''UnpicklingError'')
   \<and> length [None :: message option] < 7
   \<and> (\<exists>self'. RemoteDispatcher_start example_lib 7 (example_dispatcher example_broker)
                 = (Raises (OtherException ''UnpicklingError''), self')
         \<and> closed self'
         \<and> close_calls (consumer self') = 1
         \<and> poll_calls (consumer self') = 2
         \<and> pending (consumer self') = [Some (example_message ''topic'' ''start:run'')])"
proof -
  let ?s = "example_dispatcher example_broker"
  let ?m = "example_message ''topic'' ''garbage''"
  have c: "\<not> closed ?s"
    by (simp add: example_defs)
  have p: "pending (consumer ?s) = [None] @ Some ?m # [Some (example_message ''topic'' ''start:run'')]"
    by (simp add: example_defs)
  have d: "documents (deserializer ?s) (DocumentNames example_lib) [None] = Some []"
    by (simp add: valid_message_def)
  have h: "handle_all (process example_lib) (handler ?s) [] = Some []"
    by (simp add: example_defs)
  have e: "msg_error ?m = None"
    by (simp add: example_defs)
  have f: "fault_of example_lib (deserializer ?s) [] ?m = Some (OtherException ''UnpicklingError'')"
    by (simp add: fault_of_def example_defs)
  have i: "is_Exception (OtherException ''UnpicklingError'')"
    by simp
  have l: "length [None :: message option] < 7"
    by simp
  from fault_stops_and_propagates [OF c p d h e f i l]
  obtain self' where "RemoteDispatcher_start example_lib 7 ?s = (Raises (OtherException ''UnpicklingError''), self')"
    and "closed self'"
    and "close_calls (consumer self') = Suc (close_calls (consumer ?s))"
    and "poll_calls (consumer self') = poll_calls (consumer ?s) + length [None :: message option] + 1"
    and "pending (consumer self') = [Some (example_message ''topic'' ''start:run'')]"
    by blast
  then have "\<exists>self'. RemoteDispatcher_start example_lib 7 ?s = (Raises (OtherException ''UnpicklingError''), self')
         \<and> closed self'
         \<and> close_calls (consumer self') = 1
         \<and> poll_calls (consumer self') = 2
         \<and> pending (consumer self') = [Some (example_message ''topic'' ''start:run'')]"
    by (simp add: example_defs)
  with c p d h e f i l show ?thesis by blast
qed

text \<open>
  Claim C2 as stated fails: a callback that raises \<open>SystemExit\<close> on a stop document is
  not caught by \<open>except Exception\<close>, so the fault leaves \<open>start\<close> with no call of
  \<open>stop\<close>: \<open>closed\<close> is false and the adapter is not closed.
\<close>

theorem exit_in_handler_skips_stop:
  "fault_of exiting_lib example_deserializer [] (example_message ''topic'' ''stop:run'') = Some SystemExit
   \<and> fst (RemoteDispatcher_start exiting_lib 3
          (example_dispatcher [Some (example_message ''topic'' ''stop:run'')])) = Raises SystemExit
   \<and> \<not> closed (snd (RemoteDispatcher_start exiting_lib 3
          (example_dispatcher [Some (example_message ''topic'' ''stop:run'')])))
   \<and> close_calls (consumer (snd (RemoteDispatcher_start exiting_lib 3
          (example_dispatcher [Some (example_message ''topic'' ''stop:run'')])))) = 0"
  by (simp add: eval_defs exiting_lib_def fault_of_def)

section \<open>The loop on valid messages\<close>

text \<open>
  Claim C1, as the code has it. \<open>start\<close> takes no continuation predicate and \<open>_poll\<close> is
  \<open>while True\<close>. When the poll results are timeouts, broker errors and \<open>K\<close> valid messages
  that decode to documents the callbacks handle without a fault, \<open>process\<close> is called
  \<open>K\<close> times, once for each valid message in order, and only the valid values reach the
  deserializer. The call does not return, however long it is observed: after any number
  of passes that covers the results it is still polling, \<open>closed\<close> is false and the
  adapter is not closed. When the results run out, every further poll times out.
\<close>

theorem loop_dispatches_each_valid_message:
  assumes "\<not> closed self"
    and "documents (deserializer self) (DocumentNames lib) (pending (consumer self)) = Some docs"
    and "handle_all (process lib) (handler self) docs = Some h"
    and "length (pending (consumer self)) \<le> fuel"
  shows "(\<exists>self'. RemoteDispatcher_start lib fuel self = (StillPolling, self')
           \<and> process_calls self' = process_calls self @ docs
           \<and> length docs = length (filter valid_message (pending (consumer self)))
           \<and> handler self' = h
           \<and> decode_calls self' = decode_calls self
                @ map (\<lambda>r. msg_value (the r)) (filter valid_message (pending (consumer self)))
           \<and> \<not> closed self'
           \<and> close_calls (consumer self') = close_calls (consumer self)
           \<and> poll_calls (consumer self') = poll_calls (consumer self) + fuel)
         \<and> (\<forall>n. fst (RemoteDispatcher_start lib n self) \<noteq> Returns)"
proof -
  from poll_dispatches [OF refl assms(2) assms(3) assms(4)]
  obtain self' where run: "RemoteDispatcher_poll lib fuel self = (StillPolling, self')"
    and calls: "process_calls self' = process_calls self @ docs"
    and h: "handler self' = h"
    and dc: "decode_calls self' = decode_calls self
                @ map (\<lambda>r. msg_value (the r)) (filter valid_message (pending (consumer self)))"
    by blast
  from run assms(1) have "RemoteDispatcher_start lib fuel self = (StillPolling, self')"
    by (simp add: RemoteDispatcher_start_def)
  with calls h dc poll_frame [OF run] poll_still_polling_count [OF run]
    documents_length [OF assms(2)] assms(1) start_never_returns [of lib _ self]
  show ?thesis by simp
qed

theorem loop_dispatches_each_valid_message_witness:
  "\<not> closed (example_dispatcher example_stream)
   \<and> documents (deserializer (example_dispatcher example_stream)) (DocumentNames example_lib)
        (pending (consumer (example_dispatcher example_stream)))
       = Some [(''start'', ''run''), (''stop'', ''run'')]
   \<and> handle_all (process example_lib) (handler (example_dispatcher example_stream))
        [(''start'', ''run''), (''stop'', ''run'')] = Some [(''start'', ''run''), (''stop'', ''run'')]
   \<and> length (pending (consumer (example_dispatcher example_stream))) \<le> 6
   \<and> (\<exists>self'. RemoteDispatcher_start example_lib 6 (example_dispatcher example_stream) = (StillPolling, self')
         \<and> process_calls self' = [(''start'', ''run''), (''stop'', ''run'')]
         \<and> handler self' = [(''start'', ''run''), (''stop'', ''run'')]
         \<and> decode_calls self' = [''start:run'', ''stop:run'']
         \<and> \<not> closed self'
         \<and> close_calls (consumer self') = 0
         \<and> poll_calls (consumer self') = 6)"
proof -
  have c: "\<not> closed (example_dispatcher example_stream)"
    by (simp add: example_defs)
  have d: "documents (deserializer (example_dispatcher example_stream)) (DocumentNames example_lib)
        (pending (consumer (example_dispatcher example_stream)))
       = Some [(''start'', ''run''), (''stop'', ''run'')]"
    by (simp add: example_defs example_stream_def valid_message_def)
  have h: "handle_all (process example_lib) (handler (example_dispatcher example_stream))
        [(''start'', ''run''), (''stop'', ''run'')] = Some [(''start'', ''run''), (''stop'', ''run'')]"
    by (simp add: example_defs)
  have l: "length (pending (consumer (example_dispatcher example_stream))) \<le> 6"
    by (simp add: example_defs example_stream_def)
  have v: "filter valid_message example_stream
       = [Some (example_message ''topic'' ''start:run''), Some (example_message ''topic'' ''stop:run'')]"
    by (simp add: example_defs example_stream_def valid_message_def)
  have p: "pending (consumer (example_dispatcher example_stream)) = example_stream"
    by (simp add: example_defs)
  from loop_dispatches_each_valid_message [OF c d h l, THEN conjunct1]
  obtain self' where "RemoteDispatcher_start example_lib 6 (example_dispatcher example_stream) = (StillPolling, self')"
    "process_calls self' = process_calls (example_dispatcher example_stream) @ [(''start'', ''run''), (''stop'', ''run'')]"
    "handler self' = [(''start'', ''run''), (''stop'', ''run'')]"
    "decode_calls self' = decode_calls (example_dispatcher example_stream)
                @ map (\<lambda>r. msg_value (the r)) (filter valid_message (pending (consumer (example_dispatcher example_stream))))"
    "\<not> closed self'"
    "close_calls (consumer self') = close_calls (consumer (example_dispatcher example_stream))"
    "poll_calls (consumer self') = poll_calls (consumer (example_dispatcher example_stream)) + 6"
    by blast
  then have "\<exists>self'. RemoteDispatcher_start example_lib 6 (example_dispatcher example_stream) = (StillPolling, self')
         \<and> process_calls self' = [(''start'', ''run''), (''stop'', ''run'')]
         \<and> handler self' = [(''start'', ''run''), (''stop'', ''run'')]
         \<and> decode_calls self' = [''start:run'', ''stop:run'']
         \<and> \<not> closed self'
         \<and> close_calls (consumer self') = 0
         \<and> poll_calls (consumer self') = 6"
    unfolding p v by (simp add: example_defs)
  with c d h l show ?thesis by blast
qed

text \<open>
  Claim C1 as stated fails: with one valid message among three poll results the
  dispatcher has handled it by the second pass and is still polling at the fifth,
  not stopped.
\<close>

theorem loop_has_no_normal_exit:
  "fst (RemoteDispatcher_start example_lib 5
          (example_dispatcher [None, Some (example_message ''topic'' ''stop:run''), Some example_error]))
     = StillPolling
   \<and> process_calls (snd (RemoteDispatcher_start example_lib 5
          (example_dispatcher [None, Some (example_message ''topic'' ''stop:run''), Some example_error])))
     = [(''stop'', ''run'')]
   \<and> \<not> closed (snd (RemoteDispatcher_start example_lib 5
          (example_dispatcher [None, Some (example_message ''topic'' ''stop:run''), Some example_error])))
   \<and> close_calls (consumer (snd (RemoteDispatcher_start example_lib 5
          (example_dispatcher [None, Some (example_message ''topic'' ''stop:run''), Some example_error])))) = 0
   \<and> poll_calls (consumer (snd (RemoteDispatcher_start example_lib 5
          (example_dispatcher [None, Some (example_message ''topic'' ''stop:run''), Some example_error])))) = 5"
  by (simp add: eval_defs)

section \<open>The \<open>closed\<close> flag\<close>

text \<open>
  Claim C7. The flag is false after construction and \<open>stop\<close> sets it. Once it is set,
  every state visited by any sequence of the public operations \<open>start\<close> and \<open>stop\<close>
  (the private \<open>_poll\<close> is not one of them) has it set and has the same number of
  polls: it never goes back, so it goes from false to true at most once, and no poll is
  issued on a closed dispatcher. An operation that sets it is a \<open>stop\<close>, explicit or from
  a fault in \<open>start\<close>, and closes the adapter once.
\<close>

theorem closed_is_one_shot:
  "\<not> closed (RemoteDispatcher_init broker callbacks topics bootstrap_servers group_id auto_offset_reset
        consumer_config dec)
   \<and> closed (RemoteDispatcher_stop self)
   \<and> (closed self \<longrightarrow>
        (\<forall>s \<in> set (visited lib ops self). closed s \<and> poll_calls (consumer s) = poll_calls (consumer self)))
   \<and> (\<not> closed self \<and> closed (apply_operation lib op self) \<longrightarrow>
        close_calls (consumer (apply_operation lib op self)) = Suc (close_calls (consumer self)))"
proof (intro conjI impI ballI)
  show "\<not> closed (RemoteDispatcher_init broker callbacks topics bootstrap_servers group_id
          auto_offset_reset consumer_config dec)"
    by (rule init_not_closed)
  show "closed (RemoteDispatcher_stop self)"
    by (simp add: RemoteDispatcher_stop_def)
next
  fix s
  assume "closed self" and "s \<in> set (visited lib ops self)"
  then show "closed s" and "poll_calls (consumer s) = poll_calls (consumer self)"
    using visited_closed by blast+
next
  assume "\<not> closed self \<and> closed (apply_operation lib op self)"
  then show "close_calls (consumer (apply_operation lib op self)) = Suc (close_calls (consumer self))"
    using closing_calls_close by blast
qed

theorem closed_is_one_shot_witness:
  "closed (RemoteDispatcher_stop (example_dispatcher example_stream))
   \<and> map closed (visited example_lib [Start 4, Stop, Start 2]
                    (RemoteDispatcher_stop (example_dispatcher example_stream)))
       = [True, True, True, True]
   \<and> map (\<lambda>s. poll_calls (consumer s)) (visited example_lib [Start 4, Stop, Start 2]
                    (RemoteDispatcher_stop (example_dispatcher example_stream)))
       = [0, 0, 0, 0]
   \<and> \<not> closed (example_dispatcher example_broker)
   \<and> closed (apply_operation example_lib (Start 3) (example_dispatcher example_broker))
   \<and> close_calls (consumer (apply_operation example_lib (Start 3) (example_dispatcher example_broker))) = 1"
proof -
  let ?s = "RemoteDispatcher_stop (example_dispatcher example_stream)"
  have c: "closed ?s"
    by (simp add: RemoteDispatcher_stop_def)
  have p: "poll_calls (consumer ?s) = 0"
    by (simp add: eval_defs)
  have n: "\<not> closed (example_dispatcher example_broker)"
    by (simp add: eval_defs)
  have a: "closed (apply_operation example_lib (Start 3) (example_dispatcher example_broker))"
    by (simp add: eval_defs)
  have z: "close_calls (consumer (example_dispatcher example_broker)) = 0"
    by (simp add: eval_defs)
  have "closed ?s \<longrightarrow>
        (\<forall>s \<in> set (visited example_lib [Start 4, Stop, Start 2] ?s).
           closed s \<and> poll_calls (consumer s) = poll_calls (consumer ?s))"
    by (rule closed_is_one_shot [where self = "?s"
        and lib = example_lib and ops = "[Start 4, Stop, Start 2]",
        THEN conjunct2, THEN conjunct2, THEN conjunct1])
  with c have "\<forall>s \<in> set (visited example_lib [Start 4, Stop, Start 2] ?s).
         closed s \<and> poll_calls (consumer s) = 0"
    unfolding p by blast
  then have 1: "map closed (visited example_lib [Start 4, Stop, Start 2] ?s) = [True, True, True, True]
      \<and> map (\<lambda>s. poll_calls (consumer s)) (visited example_lib [Start 4, Stop, Start 2] ?s) = [0, 0, 0, 0]"
    by simp
  have "\<not> closed (example_dispatcher example_broker)
          \<and> closed (apply_operation example_lib (Start 3) (example_dispatcher example_broker)) \<longrightarrow>
        close_calls (consumer (apply_operation example_lib (Start 3) (example_dispatcher example_broker)))
          = Suc (close_calls (consumer (example_dispatcher example_broker)))"
    by (rule closed_is_one_shot [where self = "example_dispatcher example_broker"
        and lib = example_lib and op = "Start 3",
        THEN conjunct2, THEN conjunct2, THEN conjunct2])
  with n a z
  have 2: "close_calls (consumer (apply_operation example_lib (Start 3) (example_dispatcher example_broker))) = 1"
    by simp
  from c 1 n a 2 show ?thesis by blast
qed

section \<open>What a valid message dispatches\<close>

text \<open>
  Claim C8, as the code has it. A valid message whose value decodes to a pair with a
  name of \<open>DocumentNames\<close> is dispatched in the same pass of the loop, before the next
  poll: \<open>process\<close> is called once, on the callbacks' state, the member of the enumeration
  and the document. The topic of the message goes to the debug log only, and neither the
  topic nor the consumer is an argument of the call.
\<close>

theorem valid_message_is_dispatched:
  assumes "pending (consumer self) = Some m # rs" and "msg_error m = None"
    and "deserializer self (msg_value m) = Inr (name, doc)" and "DocumentNames lib name = Some n"
  shows "\<exists>self'. poll_iteration lib self = (fst (process lib (handler self) n doc), self')
           \<and> process_calls self' = process_calls self @ [(n, doc)]
           \<and> handler self' = snd (process lib (handler self) n doc)
           \<and> decode_calls self' = decode_calls self @ [msg_value m]
           \<and> log self' = log self @ [LogDebug (msg_topic m) name doc]
           \<and> poll_calls (consumer self') = Suc (poll_calls (consumer self))"
  using poll_iteration_dispatch [OF assms] by simp

theorem valid_message_is_dispatched_witness:
  "pending (consumer (example_dispatcher [Some (example_message ''topic.a'' ''event:reading'')]))
      = Some (example_message ''topic.a'' ''event:reading'') # []
   \<and> msg_error (example_message ''topic.a'' ''event:reading'') = None
   \<and> deserializer (example_dispatcher [Some (example_message ''topic.a'' ''event:reading'')])
        (msg_value (example_message ''topic.a'' ''event:reading'')) = Inr (''event'', ''reading'')
   \<and> DocumentNames example_lib ''event'' = Some ''event''
   \<and> (\<exists>self'. poll_iteration example_lib (example_dispatcher [Some (example_message ''topic.a'' ''event:reading'')])
                 = (None, self')
         \<and> process_calls self' = [(''event'', ''reading'')]
         \<and> handler self' = [(''event'', ''reading'')]
         \<and> decode_calls self' = [''event:reading'']
         \<and> poll_calls (consumer self') = 1)"
proof -
  let ?m = "example_message ''topic.a'' ''event:reading''"
  have p: "pending (consumer (example_dispatcher [Some ?m])) = Some ?m # []"
    by (simp add: example_defs)
  have e: "msg_error ?m = None"
    by (simp add: example_defs)
  have d: "deserializer (example_dispatcher [Some ?m]) (msg_value ?m) = Inr (''event'', ''reading'')"
    by (simp add: example_defs)
  have n: "DocumentNames example_lib ''event'' = Some ''event''"
    by (simp add: example_defs)
  from valid_message_is_dispatched [OF p e d n]
  obtain self' where "poll_iteration example_lib (example_dispatcher [Some ?m])
        = (fst (process example_lib (handler (example_dispatcher [Some ?m])) ''event'' ''reading''), self')"
    and "process_calls self' = process_calls (example_dispatcher [Some ?m]) @ [(''event'', ''reading'')]"
    and "handler self' = snd (process example_lib (handler (example_dispatcher [Some ?m])) ''event'' ''reading'')"
    and "decode_calls self' = decode_calls (example_dispatcher [Some ?m]) @ [msg_value ?m]"
    and "poll_calls (consumer self') = Suc (poll_calls (consumer (example_dispatcher [Some ?m])))"
    by blast
  then have "poll_iteration example_lib (example_dispatcher [Some ?m]) = (None, self')
         \<and> process_calls self' = [(''event'', ''reading'')]
         \<and> handler self' = [(''event'', ''reading'')]
         \<and> decode_calls self' = [''event:reading'']
         \<and> poll_calls (consumer self') = 1"
    by (simp add: example_defs)
  with p e d n show ?thesis by blast
qed

text \<open>
  Claim C8 as stated fails: two messages that differ in their topic only give the
  callbacks the same call, a pair of name and document, so the topic is not passed; and a
  value that decodes to a pair whose name is not in the enumeration raises \<open>KeyError\<close>
  and is not dispatched.
\<close>

theorem handler_gets_no_topic:
  "process_calls (snd (RemoteDispatcher_start example_lib 1
       (example_dispatcher [Some (example_message ''topic.a'' ''event:reading'')])))
     = [(''event'', ''reading'')]
   \<and> handler (snd (RemoteDispatcher_start example_lib 1
       (example_dispatcher [Some (example_message ''topic.a'' ''event:reading'')])))
     = [(''event'', ''reading'')]
   \<and> process_calls (snd (RemoteDispatcher_start example_lib 1
       (example_dispatcher [Some (example_message ''topic.b'' ''event:reading'')])))
     = [(''event'', ''reading'')]
   \<and> handler (snd (RemoteDispatcher_start example_lib 1
       (example_dispatcher [Some (example_message ''topic.b'' ''event:reading'')])))
     = [(''event'', ''reading'')]
   \<and> example_deserializer ''bogus:reading'' = Inr (''bogus'', ''reading'')
   \<and> fst (RemoteDispatcher_start example_lib 1
       (example_dispatcher [Some (example_message ''topic.a'' ''bogus:reading'')]))
     = Raises (KeyError ''bogus'')
   \<and> process_calls (snd (RemoteDispatcher_start example_lib 1
       (example_dispatcher [Some (example_message ''topic.a'' ''bogus:reading'')])))
     = []"
  by (simp add: eval_defs)

section \<open>Dictionaries and the producer's constructor\<close>

lemma map_of_setitem: "map_of (dict_setitem k v d) k' = (if k' = k then Some v else map_of d k')"
  by (induction d) auto

lemma dict_get_setitem: "dict_get (dict_setitem k v d) k' = (if k' = k then Some v else dict_get d k')"
  by (simp add: dict_get_def map_of_setitem)

lemma dict_contains_get: "dict_contains k d \<longleftrightarrow> dict_get d k \<noteq> None"
  by (simp add: dict_contains_def dict_get_def map_of_eq_None_iff)

lemma map_of_fold_setitem:
  "distinct (map fst e) \<Longrightarrow>
   map_of (fold (\<lambda>(k, v). dict_setitem k v) e d) k
     = (case map_of e k of None \<Rightarrow> map_of d k | Some v \<Rightarrow> Some v)"
proof (induction e arbitrary: d)
  case Nil
  then show ?case by simp
next
  case (Cons p e)
  obtain k' v' where p: "p = (k', v')" by (cases p)
  from Cons.prems p have d: "distinct (map fst e)" and n: "map_of e k' = None"
    by (simp_all add: map_of_eq_None_iff)
  show ?case
    using Cons.IH [OF d, of "dict_setitem k' v' d"] p n
    by (auto simp: map_of_setitem split: option.splits)
qed

lemma dict_get_update:
  "distinct (map fst e) \<Longrightarrow>
   dict_get (dict_update d e) k = (case dict_get e k of None \<Rightarrow> dict_get d k | Some v \<Rightarrow> Some v)"
  by (simp add: dict_update_def dict_get_def map_of_fold_setitem split: option.splits)




lemma setitem_setitem: "dict_setitem k v (dict_setitem k w d) = dict_setitem k v d"
  by (induction d) auto

lemma dict_contains_setitem: "dict_contains k (dict_setitem k v d)"
  by (simp add: dict_contains_get dict_get_setitem)

lemma setitem_member: "(k, v) \<in> set (dict_setitem k v d)"
  by (induction d) auto

lemma sublist_str_join: "x \<in> set xs \<Longrightarrow> sublist x (str_join sep xs)"
proof (induction sep xs rule: str_join.induct)
  case (1 sep)
  then show ?case by simp
next
  case (2 sep y)
  then show ?case by simp
next
  case (3 sep y z zs)
  show ?case
  proof (cases "x = y")
    case True
    then show ?thesis by simp
  next
    case False
    with 3 have "sublist x (str_join sep (z # zs))" by simp
    then have "sublist x ((y @ sep) @ str_join sep (z # zs))"
      by (rule sublist_order.order.trans) (rule sublist_append_leftI)
    then show ?thesis by simp
  qed
qed

lemma sublist_repr_dict: "(k, v) \<in> set d \<Longrightarrow> sublist (repr_item (k, v)) (repr_dict d)"
proof -
  assume "(k, v) \<in> set d"
  then have "repr_item (k, v) \<in> set (map repr_item d)" by force
  then have "sublist (repr_item (k, v)) (str_join '', '' (map repr_item d))"
    by (rule sublist_str_join)
  then have "sublist (repr_item (k, v)) (''{'' @ str_join '', '' (map repr_item d) @ ''}'')"
    by (rule sublist_order.order.trans) (rule sublist_appendI)
  then show ?thesis by (simp add: repr_dict_def)
qed

lemma sublist_str:
  assumes "sublist x (repr_dict (if dict_contains ''sasl.password'' (bp_producer_config self)
             then dict_setitem ''sasl.password'' (PyStr ''****'') (bp_producer_config self)
             else bp_producer_config self))"
  shows "sublist x (BasicProducer_str self)"
proof -
  let ?d = "repr_dict (if dict_contains ''sasl.password'' (bp_producer_config self)
             then dict_setitem ''sasl.password'' (PyStr ''****'') (bp_producer_config self)
             else bp_producer_config self)"
  let ?a = "''<class 'bluesky_kafka.produce.BasicProducer'>'' @ ''(''
         @ ''topic='' @ [CHR 0x27] @ bp_topic self @ [CHR 0x27] @ '',''
         @ ''key='' @ [CHR 0x27] @ py_str (bp_key self) @ [CHR 0x27] @ '',''
         @ ''bootstrap_servers='' @ [CHR 0x27] @ py_str (bp_bootstrap_servers self) @ [CHR 0x27]
         @ ''producer_config='' @ [CHR 0x27]"
  have "BasicProducer_str self = ?a @ ?d @ ([CHR 0x27] @ '')'')"
    unfolding BasicProducer_str_def Let_def by (simp only: append_assoc)
  moreover have "sublist ?d (?a @ ?d @ ([CHR 0x27] @ '')''))"
    by (rule sublist_appendI)
  ultimately have "sublist ?d (BasicProducer_str self)" by simp
  with assms show ?thesis by (rule sublist_order.order.trans)
qed

lemma masked_item:
  "repr_item (''sasl.password'', PyStr ''****'')
     = [CHR 0x27] @ ''sasl.password'' @ [CHR 0x27] @ '': '' @ [CHR 0x27] @ ''****'' @ [CHR 0x27]"
  by (simp add: repr_item_def repr_str_def repr_char_def Let_def)

lemma example_producer_init:
  "BasicProducer_init example_confluent ''test.redact.password'' (PyList [PyStr ''1.2.3.4:9092''])
     (PyStr ''test.redact.password'') (Some example_sasl_config) = Inr (example_producer example_sasl_config)"
  "BasicProducer_init example_confluent ''test.redact.password'' (PyList [PyStr ''1.2.3.4:9092''])
     (PyStr ''test.redact.password'') (Some example_secret_config) = Inr (example_producer example_secret_config)"
  by (simp_all add: example_producer_def example_sasl_config_def example_secret_config_def
        example_confluent_def BasicProducer_init_def Let_def dict_update_def dict_contains_def
        comma_join_def)

section \<open>The type of \<open>bootstrap_servers\<close>\<close>




section \<open>Servers from the argument and from the configuration\<close>


section \<open>The rendering of a producer\<close>

text \<open>
  Claim C6, as the code has it. When the configuration has the key \<open>sasl.password\<close>, the
  rendering of the producer is the same whatever the value of that key is, and it shows
  the key followed by the placeholder \<open>'****'\<close>.
\<close>

theorem password_is_masked:
  assumes "dict_contains ''sasl.password'' (bp_producer_config self)"
  shows "BasicProducer_str (self\<lparr>bp_producer_config := dict_setitem ''sasl.password'' v (bp_producer_config self)\<rparr>)
           = BasicProducer_str self
         \<and> sublist ([CHR 0x27] @ ''sasl.password'' @ [CHR 0x27] @ '': '' @ [CHR 0x27] @ ''****'' @ [CHR 0x27])
             (BasicProducer_str self)"
proof
  show "BasicProducer_str (self\<lparr>bp_producer_config := dict_setitem ''sasl.password'' v (bp_producer_config self)\<rparr>)
           = BasicProducer_str self"
    using assms by (simp add: BasicProducer_str_def dict_contains_setitem setitem_setitem)
  have "sublist (repr_item (''sasl.password'', PyStr ''****''))
          (repr_dict (dict_setitem ''sasl.password'' (PyStr ''****'') (bp_producer_config self)))"
    by (rule sublist_repr_dict) (rule setitem_member)
  with assms have "sublist (repr_item (''sasl.password'', PyStr ''****'')) (BasicProducer_str self)"
    by (intro sublist_str) simp
  then show "sublist ([CHR 0x27] @ ''sasl.password'' @ [CHR 0x27] @ '': '' @ [CHR 0x27] @ ''****'' @ [CHR 0x27])
             (BasicProducer_str self)"
    by (simp only: masked_item)
qed

theorem password_is_masked_witness:
  "dict_contains ''sasl.password'' (bp_producer_config (example_producer example_sasl_config))
   \<and> BasicProducer_str ((example_producer example_sasl_config)
         \<lparr>bp_producer_config := dict_setitem ''sasl.password'' (PyStr ''hunter2'')
              (bp_producer_config (example_producer example_sasl_config))\<rparr>)
       = BasicProducer_str (example_producer example_sasl_config)
   \<and> sublist ([CHR 0x27] @ ''sasl.password'' @ [CHR 0x27] @ '': '' @ [CHR 0x27] @ ''****'' @ [CHR 0x27])
         (BasicProducer_str (example_producer example_sasl_config))
   \<and> \<not> sublist ''PASSWORD'' (BasicProducer_str (example_producer example_sasl_config))"
proof -
  have c: "dict_contains ''sasl.password'' (bp_producer_config (example_producer example_sasl_config))"
    by (simp add: example_producer_def example_sasl_config_def dict_contains_def)
  have n: "\<not> sublist ''PASSWORD'' (BasicProducer_str (example_producer example_sasl_config))"
    by code_simp
  from password_is_masked [OF c, of "PyStr ''hunter2''"] c n show ?thesis by blast
qed

text \<open>
  Claim C6 as stated fails: the values of other \<open>sasl\<close> fields, here the user name and
  the client secret, are rendered as they are, and no placeholder appears.
\<close>

theorem other_sasl_fields_are_shown:
  "BasicProducer_init example_confluent ''test.redact.password'' (PyList [PyStr ''1.2.3.4:9092''])
     (PyStr ''test.redact.password'') (Some example_secret_config) = Inr (example_producer example_secret_config)
   \<and> sublist ''S3CR3T'' (BasicProducer_str (example_producer example_secret_config))
   \<and> sublist ''alice'' (BasicProducer_str (example_producer example_secret_config))
   \<and> \<not> sublist ''****'' (BasicProducer_str (example_producer example_secret_config))"
  by code_simp

end
